theory Spec2Isabelle
  imports Complex_Main "HOL-Library.Word" "HOL-Library.Monad_Syntax"
begin

section \<open>JavaScript strings\<close>

text \<open>
  A JavaScript string is a sequence of 16-bit code units; \<open>length\<close>, the regular
  expressions without the \<open>u\<close> flag, \<open>trim\<close> and \<open>includes\<close> all work on code units.
  String literals of the source are ASCII and are written \<open>jsstr ''...''\<close>.
\<close>

type_synonym code_unit = "16 word"
type_synonym jsstring = "code_unit list"

definition jsstr :: "string \<Rightarrow> jsstring" where
  "jsstr s = map (\<lambda>c. of_nat (of_char c)) s"

text \<open>The class \<open>\s\<close> of a regular expression, which is also what \<open>trim\<close> removes:
  the white space and line terminator code units of ECMAScript.\<close>

definition isSpace :: "code_unit \<Rightarrow> bool" where
  "isSpace c =
     (c = 0x09 \<or> c = 0x0A \<or> c = 0x0B \<or> c = 0x0C \<or> c = 0x0D \<or> c = 0x20 \<or> c = 0xA0
      \<or> c = 0x1680 \<or> (0x2000 \<le> c \<and> c \<le> 0x200A) \<or> c = 0x2028 \<or> c = 0x2029
      \<or> c = 0x202F \<or> c = 0x205F \<or> c = 0x3000 \<or> c = 0xFEFF)"

text \<open>The classes \<open>[A-Z]\<close>, \<open>[a-z]\<close>, \<open>[0-9]\<close> (also \<open>\d\<close>) and \<open>[^A-Za-z0-9]\<close>.\<close>

definition isUpper :: "code_unit \<Rightarrow> bool" where
  "isUpper c = (0x41 \<le> c \<and> c \<le> 0x5A)"

definition isLower :: "code_unit \<Rightarrow> bool" where
  "isLower c = (0x61 \<le> c \<and> c \<le> 0x7A)"

definition isDigit :: "code_unit \<Rightarrow> bool" where
  "isDigit c = (0x30 \<le> c \<and> c \<le> 0x39)"

definition isSymbol :: "code_unit \<Rightarrow> bool" where
  "isSymbol c = (\<not> (isUpper c \<or> isLower c \<or> isDigit c))"

text \<open>\<open>/^p/.test(s)\<close> for a literal \<open>p\<close>.\<close>

definition starts_with :: "jsstring \<Rightarrow> jsstring \<Rightarrow> bool" where
  "starts_with p s = (take (length p) s = p)"

text \<open>\<open>s.trim()\<close>.\<close>

definition trim :: "jsstring \<Rightarrow> jsstring" where
  "trim s = rev (dropWhile isSpace (rev (dropWhile isSpace s)))"

section \<open>main.js: the navbar scroll watcher\<close>

text \<open>
  The class list of the navbar is an ordered set of tokens (a list without repetition).
  \<open>classList.add\<close> appends a token that is not there yet, \<open>classList.remove\<close> takes it
  out. \<open>window.scrollY\<close> is a number that may be fractional.
\<close>

type_synonym classList = "jsstring list"

definition classList_add :: "jsstring \<Rightarrow> classList \<Rightarrow> classList" where
  "classList_add tok cl = (if tok \<in> set cl then cl else cl @ [tok])"

definition classList_remove :: "jsstring \<Rightarrow> classList \<Rightarrow> classList" where
  "classList_remove tok cl = filter (\<lambda>t. t \<noteq> tok) cl"

definition is_scrolled :: jsstring where
  "is_scrolled = jsstr ''is-scrolled''"

text \<open>The scroll listener of main.js, as a function of \<open>window.scrollY\<close> and of the
  navbar's class list, which is all it touches.\<close>

definition on_scroll :: "real \<Rightarrow> classList \<Rightarrow> classList" where
  "on_scroll scrollY navbar =
     (if scrollY > 32 then classList_add is_scrolled navbar
      else classList_remove is_scrolled navbar)"

section \<open>register.js: the registration hints\<close>

text \<open>One entry of the \<open>labels\<close> table; \<open>dict\<close> is the entry of the page's language.\<close>

record labels =
  weak :: jsstring
  medium :: jsstring
  good :: jsstring
  strong :: jsstring
  strength :: jsstring
  phone :: jsstring
  cm :: jsstring
  fr :: jsstring
  de :: jsstring
  us :: jsstring
  local :: jsstring
  unknown :: jsstring

definition labels_fr :: labels where
  "labels_fr = \<lparr> weak = jsstr ''Faible'', medium = jsstr ''Moyen'', good = jsstr ''Bon'',
     strong = jsstr ''Fort'', strength = jsstr ''Force du mot de passe'',
     phone = jsstr ''Detection du numero'', cm = jsstr ''Cameroun'', fr = jsstr ''France'',
     de = jsstr ''Allemagne'', us = jsstr ''USA/Canada'', local = jsstr ''Local'',
     unknown = jsstr ''Inconnu'' \<rparr>"

definition labels_en :: labels where
  "labels_en = \<lparr> weak = jsstr ''Weak'', medium = jsstr ''Medium'', good = jsstr ''Good'',
     strong = jsstr ''Strong'', strength = jsstr ''Password strength'',
     phone = jsstr ''Phone detection'', cm = jsstr ''Cameroon'', fr = jsstr ''France'',
     de = jsstr ''Germany'', us = jsstr ''USA/Canada'', local = jsstr ''Local'',
     unknown = jsstr ''Unknown'' \<rparr>"

definition labels_de :: labels where
  "labels_de = \<lparr> weak = jsstr ''Schwach'', medium = jsstr ''Mittel'', good = jsstr ''Gut'',
     strong = jsstr ''Stark'', strength = jsstr ''Passwortstarke'',
     phone = jsstr ''Nummernerkennung'', cm = jsstr ''Kamerun'', fr = jsstr ''Frankreich'',
     de = jsstr ''Deutschland'', us = jsstr ''USA/Kanada'', local = jsstr ''Lokal'',
     unknown = jsstr ''Unbekannt'' \<rparr>"

definition passwordStrength :: "jsstring \<Rightarrow> nat" where
  "passwordStrength v =
     (let score = 0;
          score = (if length v \<ge> 8 then score + 1 else score);
          score = (if list_ex isUpper v then score + 1 else score);
          score = (if list_ex isLower v then score + 1 else score);
          score = (if list_ex isDigit v then score + 1 else score);
          score = (if list_ex isSymbol v then score + 1 else score)
      in score)"

definition strengthText :: "labels \<Rightarrow> nat \<Rightarrow> jsstring" where
  "strengthText dict score =
     (if score \<le> 2 then weak dict
      else if score \<le> 3 then medium dict
      else if score \<le> 4 then good dict
      else strong dict)"

text \<open>The five criteria in the words of the specification, and how many of them a
  password satisfies.\<close>

definition criteria :: "jsstring \<Rightarrow> bool list" where
  "criteria v =
     [length v \<ge> 8, \<exists>c \<in> set v. isUpper c, \<exists>c \<in> set v. isLower c,
      \<exists>c \<in> set v. isDigit c, \<exists>c \<in> set v. \<not> (isUpper c \<or> isLower c \<or> isDigit c)]"

definition satisfied :: "jsstring \<Rightarrow> nat" where
  "satisfied v = length (filter (\<lambda>b. b) (criteria v))"

text \<open>\<open>raw.replace(/\s+/g, '')\<close>: every white space code unit is removed.\<close>

definition remove_spaces :: "jsstring \<Rightarrow> jsstring" where
  "remove_spaces raw = filter (\<lambda>c. \<not> isSpace c) raw"

text \<open>\<open>/^0\d{8,}/.test(value)\<close>: a zero and then at least eight digits.\<close>

definition zero_then_digits :: "jsstring \<Rightarrow> bool" where
  "zero_then_digits s =
     (case s of [] \<Rightarrow> False
      | c # rest \<Rightarrow> c = 0x30 \<and> length rest \<ge> 8 \<and> list_all isDigit (take 8 rest))"

definition detectPhone :: "labels \<Rightarrow> jsstring \<Rightarrow> jsstring" where
  "detectPhone dict raw =
     (let v = remove_spaces raw in
      if starts_with (jsstr ''+237'') v then cm dict
      else if starts_with (jsstr ''+33'') v then fr dict
      else if starts_with (jsstr ''+49'') v then de dict
      else if starts_with (jsstr ''+1'') v then us dict
      else if zero_then_digits v then local dict
      else unknown dict)"

text \<open>The rules of the detector as the specification lists them, each with the label it
  selects, and the number of rules a string matches.\<close>

definition phone_rules :: "((jsstring \<Rightarrow> bool) \<times> (labels \<Rightarrow> jsstring)) list" where
  "phone_rules =
     [(starts_with (jsstr ''+237''), cm), (starts_with (jsstr ''+33''), fr),
      (starts_with (jsstr ''+49''), de), (starts_with (jsstr ''+1''), us),
      (zero_then_digits, local)]"

definition matching_rules :: "jsstring \<Rightarrow> nat" where
  "matching_rules v = length (filter (\<lambda>r. fst r v) phone_rules)"

definition first_match :: "labels \<Rightarrow> jsstring \<Rightarrow> jsstring" where
  "first_match dict v =
     (case find (\<lambda>r. fst r v) phone_rules of
        Some r \<Rightarrow> snd r dict
      | None \<Rightarrow> unknown dict)"

section \<open>admin-chat.js: the request URL\<close>

definition slash :: code_unit where
  "slash = 0x2F"

text \<open>\<open>apiBase.replace(/\/+$/, '')\<close> and \<open>path.replace(/^\/+/, '')\<close>: the only match of
  the first expression is the whole run of slashes that ends the string, the only match of
  the second the run that starts it.\<close>

definition strip_trailing_slashes :: "jsstring \<Rightarrow> jsstring" where
  "strip_trailing_slashes s = rev (dropWhile (\<lambda>c. c = slash) (rev s))"

definition strip_leading_slashes :: "jsstring \<Rightarrow> jsstring" where
  "strip_leading_slashes s = dropWhile (\<lambda>c. c = slash) s"

definition withApi :: "jsstring \<Rightarrow> jsstring \<Rightarrow> jsstring" where
  "withApi apiBase path = strip_trailing_slashes apiBase @ [slash] @ strip_leading_slashes path"

section \<open>admin-chat.js: values\<close>

text \<open>
  A number of JavaScript is a double: \<open>NaN\<close>, one of the two infinities, or a finite
  double, which is a real number (the two zeros are one number here; nothing in the
  source tells them apart).
\<close>

datatype jsnum = NaN | PosInf | NegInf | Fin real

text \<open>
  The values that \<open>JSON.parse\<close> and \<open>response.json()\<close> give, and \<open>undefined\<close>, which
  reading an absent property gives. The entries of an object are kept in the order of the
  text; where a name stands twice the last entry counts.
\<close>

datatype jsval =
  JUndefined | JNull | JBool bool | JNum jsnum | JStr jsstring
  | JArr "jsval list" | JObj "(jsstring \<times> jsval) list"

text \<open>The constants read from the page's data attributes, and the three library
  functions whose results the model does not compute: the printing of a number, the
  conversion of a string to a number, and \<open>encodeURIComponent\<close>, which throws (\<open>None\<close>) on
  a lone surrogate.\<close>

record config =
  currentUserId :: jsnum
  csrfToken :: jsstring
  apiBase :: jsstring
  wsUrl :: jsstring
  wsToken :: jsstring
  NumberToString :: "jsnum \<Rightarrow> jsstring"
  StringToNumber :: "jsstring \<Rightarrow> jsnum"
  encodeURIComponent :: "jsstring \<Rightarrow> jsstring option"

text \<open>An expression that can throw has an \<open>option\<close> for value: \<open>None\<close> is the exception
  (a \<open>TypeError\<close> everywhere below).\<close>

text \<open>\<open>x.name\<close>, for the names the source reads, none of which a prototype defines:
  it throws on \<open>undefined\<close> and \<open>null\<close>, is the entry of an object, and \<open>undefined\<close> on any
  other value.\<close>

fun property :: "jsval \<Rightarrow> jsstring \<Rightarrow> jsval option" where
  "property JUndefined name = None"
| "property JNull name = None"
| "property (JObj entries) name =
     Some (case map_of (rev entries) name of None \<Rightarrow> JUndefined | Some v \<Rightarrow> v)"
| "property v name = Some JUndefined"

text \<open>Truthiness, for \<open>!x\<close>, \<open>x || y\<close> and \<open>if (x)\<close>.\<close>

fun num_truthy :: "jsnum \<Rightarrow> bool" where
  "num_truthy NaN = False"
| "num_truthy (Fin x) = (x \<noteq> 0)"
| "num_truthy n = True"

fun truthy :: "jsval \<Rightarrow> bool" where
  "truthy JUndefined = False"
| "truthy JNull = False"
| "truthy (JBool b) = b"
| "truthy (JNum n) = num_truthy n"
| "truthy (JStr s) = (s \<noteq> [])"
| "truthy (JArr xs) = True"
| "truthy (JObj entries) = True"

fun join_comma :: "jsstring list \<Rightarrow> jsstring" where
  "join_comma [] = []"
| "join_comma [x] = x"
| "join_comma (x # y # ys) = x @ [0x2C] @ join_comma (y # ys)"

text \<open>The string of a value, as a template literal inserts it. An array is the strings of
  its elements joined by commas, with nothing for \<open>null\<close> and \<open>undefined\<close>. An object of
  JSON is \<open>[object Object]\<close>, unless it has an entry \<open>toString\<close> of its own: that entry is
  not a function, \<open>valueOf\<close> gives no primitive, and the conversion throws.\<close>

fun ToString :: "config \<Rightarrow> jsval \<Rightarrow> jsstring option" where
  "ToString cfg JUndefined = Some (jsstr ''undefined'')"
| "ToString cfg JNull = Some (jsstr ''null'')"
| "ToString cfg (JBool b) = Some (if b then jsstr ''true'' else jsstr ''false'')"
| "ToString cfg (JNum n) = Some (NumberToString cfg n)"
| "ToString cfg (JStr s) = Some s"
| "ToString cfg (JArr xs) =
     map_option join_comma
       (those (map (\<lambda>x. if x = JUndefined \<or> x = JNull then Some [] else ToString cfg x) xs))"
| "ToString cfg (JObj entries) =
     (if jsstr ''toString'' \<in> fst ` set entries then None
      else Some (jsstr ''[object Object]''))"

text \<open>\<open>Number(v)\<close>. An array or an object is converted through its string.\<close>

fun Number :: "config \<Rightarrow> jsval \<Rightarrow> jsnum option" where
  "Number cfg JUndefined = Some NaN"
| "Number cfg JNull = Some (Fin 0)"
| "Number cfg (JBool b) = Some (Fin (if b then 1 else 0))"
| "Number cfg (JNum n) = Some n"
| "Number cfg (JStr s) = Some (StringToNumber cfg s)"
| "Number cfg v = map_option (StringToNumber cfg) (ToString cfg v)"


definition or_empty :: "jsval \<Rightarrow> jsval" where
  "or_empty v = (if truthy v then v else JArr [])"

text \<open>\<open>a === b\<close> on two numbers: \<open>NaN\<close> equals nothing.\<close>

definition num_eq :: "jsnum \<Rightarrow> jsnum \<Rightarrow> bool" where
  "num_eq a b = (a \<noteq> NaN \<and> a = b)"

text \<open>\<open>selectedUserId\<close> is \<open>null\<close> (here \<open>None\<close>) or a number. The source tests it by
  truthiness everywhere: \<open>null\<close>, \<open>0\<close> and \<open>NaN\<close> count as no selection.\<close>

fun selected :: "jsnum option \<Rightarrow> bool" where
  "selected None = False"
| "selected (Some n) = num_truthy n"

text \<open>\<open>selectedUserId === n\<close> for a number \<open>n\<close>, and \<open>user.id === selectedUserId\<close>.\<close>

fun sel_eq :: "jsnum option \<Rightarrow> jsnum \<Rightarrow> bool" where
  "sel_eq None n = False"
| "sel_eq (Some m) n = num_eq m n"

fun id_eq :: "jsval \<Rightarrow> jsnum option \<Rightarrow> bool" where
  "id_eq JNull None = True"
| "id_eq (JNum a) (Some b) = num_eq a b"
| "id_eq v sel = False"

section \<open>admin-chat.js: the client state and its effects\<close>

datatype ready_state = CONNECTING | OPEN | CLOSING | CLOSED

text \<open>What leaves the client: a request of \<open>fetch\<close>, a frame sent on the socket, the
  construction of a socket. The body of a request and the frame are recorded as the
  objects handed to \<open>JSON.stringify\<close>.\<close>

record send_body =
  target_id :: jsnum
  message_text :: jsstring

record request =
  request_method :: jsstring
  url :: jsstring
  credentials :: jsstring
  headers :: "(jsstring \<times> jsstring) list"
  body :: "send_body option"

record notification =
  type_tag :: jsstring
  target_user_id :: jsnum
  sender_user_id :: jsnum
  conversation_id :: jsnum
  message_id :: jsnum

datatype effect = Fetch request | SocketSend notification | NewWebSocket jsstring

text \<open>
  The module's variables (\<open>users\<close>, \<open>selectedUserId\<close>, \<open>socket\<close>, \<open>reconnectTimer\<close>), the
  parts of the page it writes, the timeouts it has pending (handle and delay in
  milliseconds; the callback is always \<open>connectWebSocket\<close>) with the last handle that
  \<open>setTimeout\<close> returned, and the trace of its effects. \<open>users\<close> holds whatever the last
  answer gave for the list. \<open>socket\<close> is \<open>None\<close> for \<open>null\<close> and else the ready state of the
  socket, which the browser changes. The two containers are modelled by the markup
  assigned to their \<open>innerHTML\<close>.
\<close>

record chat =
  users :: jsval
  selectedUserId :: "jsnum option"
  socket :: "ready_state option"
  reconnectTimer :: "nat option"
  usersContainer :: jsstring
  messagesContainer :: jsstring
  chatHeader :: jsstring
  input_value :: jsstring
  input_disabled :: bool
  sendButton_disabled :: bool
  timers :: "(nat \<times> nat) list"
  last_handle :: nat
  trace :: "effect list"

text \<open>What \<open>await fetch(...)\<close> and then \<open>await response.json()\<close> give: the request is
  rejected (the network failed), or there is a response with its \<open>ok\<close> flag and its body,
  \<open>None\<close> when the body is not JSON and \<open>response.json()\<close> rejects.\<close>

datatype fetched = Rejected | Response bool "jsval option"

text \<open>How a call ends: it returns, or an exception leaves it.\<close>

datatype completion = Returned | Thrown

section \<open>admin-chat.js: rendering\<close>

text \<open>\<open>escapeHtml\<close> sets the value as the text of a fresh element and reads the
  element's markup back. The text set for \<open>null\<close> and \<open>undefined\<close> is empty, for any other
  value its string; the markup of a text node replaces the ampersand, the no-break space
  and the two angle brackets by their entities.\<close>

definition textContent_of :: "config \<Rightarrow> jsval \<Rightarrow> jsstring option" where
  "textContent_of cfg v = (if v = JUndefined \<or> v = JNull then Some [] else ToString cfg v)"

definition escape_unit :: "code_unit \<Rightarrow> jsstring" where
  "escape_unit c =
     (if c = 0x26 then jsstr ''&amp;''
      else if c = 0xA0 then jsstr ''&nbsp;''
      else if c = 0x3C then jsstr ''&lt;''
      else if c = 0x3E then jsstr ''&gt;''
      else [c])"

definition escapeHtml :: "config \<Rightarrow> jsval \<Rightarrow> jsstring option" where
  "escapeHtml cfg v = map_option (\<lambda>text. concat (map escape_unit text)) (textContent_of cfg v)"

definition newline :: jsstring where
  "newline = [0x0A]"

definition indent :: "nat \<Rightarrow> jsstring" where
  "indent n = replicate n 0x20"

text \<open>The callback of \<open>renderUsers\<close>: the markup of one user.\<close>

definition user_item :: "config \<Rightarrow> jsnum option \<Rightarrow> jsval \<Rightarrow> jsstring option" where
  \<open>user_item cfg sel user =
     do {
       user_id \<leftarrow> property user (jsstr ''id'');
       let active = (if id_eq user_id sel then jsstr ''active'' else []);
       id_string \<leftarrow> ToString cfg user_id;
       full_name \<leftarrow> Option.bind (property user (jsstr ''full_name'')) (escapeHtml cfg);
       email \<leftarrow> Option.bind (property user (jsstr ''email'')) (escapeHtml cfg);
       role \<leftarrow> Option.bind (property user (jsstr ''role'')) (escapeHtml cfg);
       Some (newline @ indent 16 @ jsstr ''<div class="chat-user-item '' @ active
           @ jsstr ''" data-user-id="'' @ id_string @ jsstr ''">''
         @ newline @ indent 20 @ jsstr ''<strong>'' @ full_name @ jsstr ''</strong>''
         @ newline @ indent 20 @ jsstr ''<div class="small text-muted">'' @ email
           @ jsstr '' | '' @ role @ jsstr ''</div>''
         @ newline @ indent 16 @ jsstr ''</div>''
         @ newline @ indent 12)
     }\<close>

text \<open>\<open>list.map(callback).join('')\<close>: it throws when the list is not an array, which has
  no \<open>map\<close>, and when the callback throws on an element.\<close>

definition map_join :: "(jsval \<Rightarrow> jsstring option) \<Rightarrow> jsval \<Rightarrow> jsstring option" where
  "map_join callback list =
     (case list of
        JArr xs \<Rightarrow> map_option concat (those (map callback xs))
      | _ \<Rightarrow> None)"

text \<open>\<open>renderUsers\<close>; the click listener it adds to every item is \<open>on_click\<close> below.\<close>

definition renderUsers :: "config \<Rightarrow> chat \<Rightarrow> completion \<times> chat" where
  "renderUsers cfg s =
     (case map_join (user_item cfg (selectedUserId s)) (users s) of
        None \<Rightarrow> (Thrown, s)
      | Some markup \<Rightarrow> (Returned, s\<lparr>usersContainer := markup\<rparr>))"

text \<open>The callback of \<open>renderMessages\<close>: the markup of one message.\<close>

definition message_item :: "config \<Rightarrow> jsval \<Rightarrow> jsstring option" where
  \<open>message_item cfg message =
     do {
       sender \<leftarrow> Option.bind (property message (jsstr ''sender_id'')) (Number cfg);
       let bubbleType =
         (if num_eq sender (currentUserId cfg) then jsstr ''self'' else jsstr ''other'');
       content \<leftarrow> Option.bind (property message (jsstr ''content'')) (escapeHtml cfg);
       sender_name \<leftarrow> Option.bind (property message (jsstr ''sender_name'')) (escapeHtml cfg);
       created_at \<leftarrow> Option.bind (property message (jsstr ''created_at'')) (escapeHtml cfg);
       Some (newline @ indent 16 @ jsstr ''<div class="chat-bubble '' @ bubbleType @ jsstr ''">''
         @ newline @ indent 20 @ jsstr ''<div>'' @ content @ jsstr ''</div>''
         @ newline @ indent 20 @ jsstr ''<span class="chat-meta">'' @ sender_name
           @ jsstr '' | '' @ created_at @ jsstr ''</span>''
         @ newline @ indent 16 @ jsstr ''</div>''
         @ newline @ indent 12)
     }\<close>

text \<open>\<open>renderMessages\<close>; the scroll position it sets last is not part of the model.\<close>

definition renderMessages :: "config \<Rightarrow> jsval \<Rightarrow> chat \<Rightarrow> completion \<times> chat" where
  "renderMessages cfg messages s =
     (case map_join (message_item cfg) messages of
        None \<Rightarrow> (Thrown, s)
      | Some markup \<Rightarrow> (Returned, s\<lparr>messagesContainer := markup\<rparr>))"

section \<open>admin-chat.js: the header\<close>

definition isLineTerminator :: "code_unit \<Rightarrow> bool" where
  "isLineTerminator c = (c = 0x0A \<or> c = 0x0D \<or> c = 0x2028 \<or> c = 0x2029)"

definition ws_marker :: jsstring where
  "ws_marker = jsstr ''| WS: ''"

text \<open>\<open>current.replace(/\| WS: .*$/, `| WS: ${stateText}`)\<close>: the first place where the
  marker stands with no line terminator between it and the end of the string is cut
  there and continued with the new state; without such a place the string is kept.\<close>

fun replace_ws :: "jsstring \<Rightarrow> jsstring \<Rightarrow> jsstring" where
  "replace_ws stateText [] = []"
| "replace_ws stateText (c # cs) =
     (if starts_with ws_marker (c # cs)
         \<and> \<not> list_ex isLineTerminator (drop (length ws_marker) (c # cs))
      then ws_marker @ stateText
      else c # replace_ws stateText cs)"

definition setSocketState :: "jsstring \<Rightarrow> chat \<Rightarrow> chat" where
  "setSocketState stateText s =
     (let current = chatHeader s in
      if \<not> selected (selectedUserId s) then
        s\<lparr>chatHeader := jsstr ''WebSocket: '' @ stateText
             @ jsstr ''. Selectionnez un utilisateur pour commencer.''\<rparr>
      else if 0x7C \<notin> set current then
        s\<lparr>chatHeader := current @ jsstr '' | WS: '' @ stateText\<rparr>
      else
        s\<lparr>chatHeader := replace_ws stateText current\<rparr>)"

section \<open>admin-chat.js: the REST operations\<close>

definition get_request :: "jsstring \<Rightarrow> request" where
  "get_request u = \<lparr> request_method = jsstr ''GET'', url = u, credentials = jsstr ''same-origin'',
     headers = [], body = None \<rparr>"

definition emit :: "effect \<Rightarrow> chat \<Rightarrow> chat" where
  "emit e s = s\<lparr>trace := trace s @ [e]\<rparr>"

definition loadUsers :: "config \<Rightarrow> fetched \<Rightarrow> chat \<Rightarrow> completion \<times> chat" where
  "loadUsers cfg response s =
     (let s1 = emit (Fetch (get_request (withApi (apiBase cfg) (jsstr ''chat_users'')))) s in
      case response of
        Rejected \<Rightarrow> (Thrown, s1)
      | Response ok json \<Rightarrow>
          if \<not> ok then (Returned, s1)
          else (case json of
            None \<Rightarrow> (Thrown, s1)
          | Some data \<Rightarrow>
              (case property data (jsstr ''users'') of
                None \<Rightarrow> (Thrown, s1)
              | Some list \<Rightarrow> renderUsers cfg (s1\<lparr>users := or_empty list\<rparr>))))"

definition socket_open :: "chat \<Rightarrow> bool" where
  "socket_open s = (socket s = Some OPEN)"

text \<open>\<open>data.target_user.full_name\<close> as the template literal of the header inserts it.\<close>

definition target_name :: "config \<Rightarrow> jsval \<Rightarrow> jsstring option" where
  "target_name cfg data =
     do {
       target_user \<leftarrow> property data (jsstr ''target_user'');
       full_name \<leftarrow> property target_user (jsstr ''full_name'');
       ToString cfg full_name
     }"

definition loadMessages :: "config \<Rightarrow> fetched \<Rightarrow> chat \<Rightarrow> completion \<times> chat" where
  "loadMessages cfg response s =
     (if \<not> selected (selectedUserId s) then (Returned, s)
      else
        let s1 = emit (Fetch (get_request (withApi (apiBase cfg)
                   (jsstr ''chat_fetch?target_id=''
                      @ NumberToString cfg (the (selectedUserId s)))))) s in
        case response of
          Rejected \<Rightarrow> (Thrown, s1)
        | Response ok json \<Rightarrow>
            if \<not> ok then (Returned, s1)
            else (case json of
              None \<Rightarrow> (Thrown, s1)
            | Some data \<Rightarrow>
                (case target_name cfg data of
                  None \<Rightarrow> (Thrown, s1)
                | Some name \<Rightarrow>
                    let s2 = s1\<lparr>chatHeader := jsstr ''Conversation avec '' @ name\<rparr>;
                        s3 = setSocketState
                               (if socket_open s2 then jsstr ''connecte'' else jsstr ''deconnecte'') s2
                    in (case property data (jsstr ''messages'') of
                      None \<Rightarrow> (Thrown, s3)
                    | Some list \<Rightarrow>
                        (case renderMessages cfg (or_empty list) s3 of
                          (Thrown, s4) \<Rightarrow> (Thrown, s4)
                        | (Returned, s4) \<Rightarrow>
                            (Returned,
                             s4\<lparr>input_disabled := False, sendButton_disabled := False\<rparr>))))))"

definition notifyWsNewMessage :: "config \<Rightarrow> jsnum \<Rightarrow> jsnum \<Rightarrow> jsnum \<Rightarrow> chat \<Rightarrow> chat" where
  "notifyWsNewMessage cfg targetId conversationId messageId s =
     (if \<not> socket_open s then s
      else emit (SocketSend \<lparr> type_tag = jsstr ''chat:new_message'', target_user_id = targetId,
                  sender_user_id = currentUserId cfg, conversation_id = conversationId,
                  message_id = messageId \<rparr>) s)"

definition send_request :: "config \<Rightarrow> jsnum \<Rightarrow> jsstring \<Rightarrow> request" where
  "send_request cfg targetId text =
     \<lparr> request_method = jsstr ''POST'', url = withApi (apiBase cfg) (jsstr ''chat_send''),
       credentials = jsstr ''same-origin'',
       headers = [(jsstr ''Content-Type'', jsstr ''application/json''),
                  (jsstr ''X-CSRF-Token'', csrfToken cfg)],
       body = Some \<lparr> target_id = targetId, message_text = text \<rparr> \<rparr>"

text \<open>The three arguments of the call of \<open>notifyWsNewMessage\<close>, in the order in which they
  are evaluated: \<open>Number(data.target_id)\<close>, \<open>Number(data.conversation_id)\<close>,
  \<open>Number(data.message_id)\<close>.\<close>

definition sent_ids :: "config \<Rightarrow> jsval \<Rightarrow> (jsnum \<times> jsnum \<times> jsnum) option" where
  "sent_ids cfg data =
     do {
       targetId \<leftarrow> Option.bind (property data (jsstr ''target_id'')) (Number cfg);
       conversationId \<leftarrow> Option.bind (property data (jsstr ''conversation_id'')) (Number cfg);
       messageId \<leftarrow> Option.bind (property data (jsstr ''message_id'')) (Number cfg);
       Some (targetId, conversationId, messageId)
     }"

definition sendMessage ::
  "config \<Rightarrow> fetched \<Rightarrow> fetched \<Rightarrow> jsstring \<Rightarrow> chat \<Rightarrow> completion \<times> chat" where
  "sendMessage cfg response reload message s =
     (if \<not> selected (selectedUserId s) \<or> trim message = [] then (Returned, s)
      else
        let s1 = emit (Fetch (send_request cfg (the (selectedUserId s)) (trim message))) s in
        case response of
          Rejected \<Rightarrow> (Thrown, s1)
        | Response ok json \<Rightarrow>
            if \<not> ok then (Returned, s1)
            else (case json of
              None \<Rightarrow> (Thrown, s1)
            | Some data \<Rightarrow>
                (case loadMessages cfg reload s1 of
                  (Thrown, s2) \<Rightarrow> (Thrown, s2)
                | (Returned, s2) \<Rightarrow>
                    (case sent_ids cfg data of
                      None \<Rightarrow> (Thrown, s2)
                    | Some (targetId, conversationId, messageId) \<Rightarrow>
                        (Returned,
                         notifyWsNewMessage cfg targetId conversationId messageId s2)))))"

text \<open>The submit listener of the form; the focus it gives back to the input is not part
  of the model.\<close>

definition on_submit :: "config \<Rightarrow> fetched \<Rightarrow> fetched \<Rightarrow> chat \<Rightarrow> completion \<times> chat" where
  "on_submit cfg response reload s =
     (let message = input_value s in
      sendMessage cfg response reload message (s\<lparr>input_value := []\<rparr>))"

text \<open>The click listener of a roster item; \<open>userId\<close> is \<open>Number(item.dataset.userId)\<close>.
  An exception of \<open>renderUsers\<close> ends the listener; it does not wait for \<open>loadMessages\<close>.\<close>

definition on_click :: "config \<Rightarrow> jsnum \<Rightarrow> fetched \<Rightarrow> chat \<Rightarrow> chat" where
  "on_click cfg userId reload s =
     (if sel_eq (selectedUserId s) userId then s
      else (case renderUsers cfg (s\<lparr>selectedUserId := Some userId\<rparr>) of
        (Thrown, s1) \<Rightarrow> s1
      | (Returned, s1) \<Rightarrow> snd (loadMessages cfg reload s1)))"

section \<open>admin-chat.js: the push channel\<close>



text \<open>\<open>connectWebSocket\<close>; \<open>constructed\<close> tells whether \<open>new WebSocket(...)\<close> returns
  (it throws on a URL it cannot accept). The four listeners it adds are the handlers
  below.\<close>

definition connectWebSocket :: "config \<Rightarrow> bool \<Rightarrow> chat \<Rightarrow> chat" where
  "connectWebSocket cfg constructed s =
     (if wsUrl cfg = [] \<or> wsToken cfg = [] then setSocketState (jsstr ''indisponible'') s
      else (case encodeURIComponent cfg (wsToken cfg) of
        None \<Rightarrow> setSocketState (jsstr ''erreur'') s
      | Some token \<Rightarrow>
          let connector = (if 0x3F \<in> set (wsUrl cfg) then jsstr ''&'' else jsstr ''?'');
              s1 = emit (NewWebSocket (wsUrl cfg @ connector @ jsstr ''token='' @ token)) s
          in if constructed then s1\<lparr>socket := Some CONNECTING\<rparr>
             else setSocketState (jsstr ''erreur'') s1))"

text \<open>\<open>setTimeout\<close> returns a fresh handle greater than zero; \<open>clearTimeout\<close> takes
  the timeout with the handle out of the pending ones.\<close>

definition setTimeout :: "nat \<Rightarrow> chat \<Rightarrow> nat \<times> chat" where
  "setTimeout delay s =
     (let h = Suc (last_handle s)
      in (h, s\<lparr>timers := timers s @ [(h, delay)], last_handle := h\<rparr>))"

definition clearTimeout :: "nat \<Rightarrow> chat \<Rightarrow> chat" where
  "clearTimeout h s = s\<lparr>timers := filter (\<lambda>t. fst t \<noteq> h) (timers s)\<rparr>"

definition on_open :: "chat \<Rightarrow> chat" where
  "on_open s = setSocketState (jsstr ''connecte'') s"

definition on_close :: "chat \<Rightarrow> chat" where
  "on_close s =
     (let s1 = setSocketState (jsstr ''deconnecte'') s;
          s2 = (case reconnectTimer s1 of
                  None \<Rightarrow> s1
                | Some h \<Rightarrow> if h \<noteq> 0 then clearTimeout h s1 else s1);
          (h, s3) = setTimeout 2000 s2
      in s3\<lparr>reconnectTimer := Some h\<rparr>)"

definition on_error :: "chat \<Rightarrow> chat" where
  "on_error s = setSocketState (jsstr ''erreur'') s"

text \<open>A pending timeout expires: it is no longer pending, and its callback runs.\<close>

definition on_timeout :: "config \<Rightarrow> nat \<Rightarrow> bool \<Rightarrow> chat \<Rightarrow> chat" where
  "on_timeout cfg h constructed s =
     (if h \<in> fst ` set (timers s)
      then connectWebSocket cfg constructed (s\<lparr>timers := filter (\<lambda>t. fst t \<noteq> h) (timers s)\<rparr>)
      else s)"

text \<open>The events of the push channel's life, in the order the browser delivers them. With
  an event of the socket the browser has set the socket's ready state.\<close>

datatype event = SocketOpen | SocketClose | SocketError | TimerExpires nat bool

definition browser_sets :: "ready_state \<Rightarrow> chat \<Rightarrow> chat" where
  "browser_sets r s = (case socket s of None \<Rightarrow> s | Some _ \<Rightarrow> s\<lparr>socket := Some r\<rparr>)"

fun dispatch :: "config \<Rightarrow> event \<Rightarrow> chat \<Rightarrow> chat" where
  "dispatch cfg SocketOpen s = on_open (browser_sets OPEN s)"
| "dispatch cfg SocketClose s = on_close (browser_sets CLOSED s)"
| "dispatch cfg SocketError s = on_error s"
| "dispatch cfg (TimerExpires h constructed) s = on_timeout cfg h constructed s"

fun run :: "config \<Rightarrow> event list \<Rightarrow> chat \<Rightarrow> chat" where
  "run cfg [] s = s"
| "run cfg (ev # evs) s = run cfg evs (dispatch cfg ev s)"

text \<open>The last two statements of the script: the roster is requested, the socket is
  connected.\<close>

definition startup :: "config \<Rightarrow> fetched \<Rightarrow> bool \<Rightarrow> chat \<Rightarrow> chat" where
  "startup cfg roster constructed s = connectWebSocket cfg constructed (snd (loadUsers cfg roster s))"

section \<open>A page and a state to run the client on\<close>

text \<open>Decimal digits, for the examples.\<close>

fun show_nat :: "nat \<Rightarrow> jsstring" where
  "show_nat n =
     (if n < 10 then [0x30 + of_nat n]
      else show_nat (n div 10) @ [0x30 + of_nat (n mod 10)])"

declare show_nat.simps [simp del]

definition show_int :: "int \<Rightarrow> jsstring" where
  "show_int i = (if i < 0 then jsstr ''-'' @ show_nat (nat (- i)) else show_nat (nat i))"

text \<open>The three library functions of the example page. The theorems hold for every
  choice of them; the examples need them on a few arguments only, and there they are
  JavaScript's. The printing gives \<open>NaN\<close>, the infinities and the integers below \<open>10^21\<close>
  as JavaScript prints them, these in decimal digits; it is empty on any other number, and
  no example has one. The conversion reads a string of decimal digits that is not empty as
  JavaScript does; it is \<open>NaN\<close> on any other string, and no example has one. The encoding
  leaves a token of letters and digits as it is, and the token of the page is one. With
  them, the page of user 1 with the default base.\<close>

definition print_number :: "jsnum \<Rightarrow> jsstring" where
  "print_number n =
     (case n of
        NaN \<Rightarrow> jsstr ''NaN''
      | PosInf \<Rightarrow> jsstr ''Infinity''
      | NegInf \<Rightarrow> jsstr ''-Infinity''
      | Fin x \<Rightarrow> if x \<in> \<int> \<and> \<bar>x\<bar> < 10 ^ 21 then show_int \<lfloor>x\<rfloor> else [])"

definition parse_decimal :: "jsstring \<Rightarrow> jsnum" where
  "parse_decimal s =
     (if s \<noteq> [] \<and> list_all isDigit s
      then Fin (of_nat (foldl (\<lambda>n c. 10 * n + (unat c - 48)) 0 s))
      else NaN)"

definition example_config :: config where
  "example_config = \<lparr> currentUserId = Fin 1, csrfToken = jsstr ''tok'',
     apiBase = jsstr ''/backoffice/api'', wsUrl = jsstr ''wss://chat.example/ws'',
     wsToken = jsstr ''abc123'', NumberToString = print_number,
     StringToNumber = parse_decimal, encodeURIComponent = (\<lambda>s. Some s) \<rparr>"

text \<open>The state of the script before its first statement runs, on a page whose header is
  empty and whose controls are disabled, and the state with user 7 selected and the socket
  open.\<close>

definition example_start :: chat where
  "example_start = \<lparr> users = JArr [], selectedUserId = None, socket = None,
     reconnectTimer = None, usersContainer = [], messagesContainer = [], chatHeader = [],
     input_value = [], input_disabled = True, sendButton_disabled = True, timers = [],
     last_handle = 0, trace = [] \<rparr>"

definition example_selected :: chat where
  "example_selected = example_start \<lparr> selectedUserId := Some (Fin 7), socket := Some OPEN,
     chatHeader := jsstr ''Conversation avec Awa | WS: connecte'',
     input_disabled := False, sendButton_disabled := False \<rparr>"







section \<open>The requests and the reloads by name\<close>






section \<open>What the message handler decides on\<close>




section \<open>The pending reconnection\<close>

text \<open>What holds of the timeouts between two events: none is pending, or one is, with a
  delay of 2000 ms, and \<open>reconnectTimer\<close> is its handle, which \<open>setTimeout\<close> has returned.\<close>

definition timer_invariant :: "chat \<Rightarrow> bool" where
  "timer_invariant s =
     (case timers s of
        [] \<Rightarrow> True
      | [t] \<Rightarrow> reconnectTimer s = Some (fst t) \<and> fst t \<noteq> 0 \<and> snd t = 2000
               \<and> fst t \<le> last_handle s
      | _ \<Rightarrow> False)"

text \<open>The number of sockets the client has tried to construct.\<close>

fun is_connect :: "effect \<Rightarrow> bool" where
  "is_connect (NewWebSocket u) = True"
| "is_connect _ = False"

definition connects :: "chat \<Rightarrow> nat" where
  "connects s = length (filter is_connect (trace s))"

text \<open>The page names a socket URL and a token that can be encoded: then the script has
  connected a socket at its start, and only then can a socket close.\<close>

definition configured :: "config \<Rightarrow> bool" where
  "configured cfg =
     (wsUrl cfg \<noteq> [] \<and> wsToken cfg \<noteq> [] \<and> encodeURIComponent cfg (wsToken cfg) \<noteq> None)"

section \<open>Markup in the rendered lists\<close>

text \<open>The angle brackets of a piece of markup: in the text of an element a tag can only
  begin with one. Each of the two templates has twelve of its own.\<close>

definition angle_brackets :: "jsstring \<Rightarrow> nat" where
  "angle_brackets str = length (filter (\<lambda>c. c = 0x3C \<or> c = 0x3E) str)"

text \<open>A user whose name and whose id both hold markup. The server sends identifiers as
  numbers; the client does not check that it has.\<close>

definition injecting_user :: jsval where
  \<open>injecting_user = JObj [(jsstr ''id'', JStr (jsstr ''"><img src=x onerror=alert(1)>'')),
     (jsstr ''full_name'', JStr (jsstr ''Eve <b>'')),
     (jsstr ''email'', JStr (jsstr ''eve@example.org'')),
     (jsstr ''role'', JStr (jsstr ''admin''))]\<close>

section \<open>The request URL has one separator\<close>

lemma strip_trailing_append: "strip_trailing_slashes (b @ replicate m slash) = strip_trailing_slashes b"
proof -
  have "dropWhile (\<lambda>c. c = slash) (replicate m slash @ xs) = dropWhile (\<lambda>c. c = slash) xs" for xs
    by (induction m) simp_all
  then show ?thesis by (simp add: strip_trailing_slashes_def)
qed

lemma strip_leading_append: "strip_leading_slashes (replicate n slash @ p) = strip_leading_slashes p"
  by (induction n) (simp_all add: strip_leading_slashes_def)

lemma takeWhile_replicate:
  "takeWhile (\<lambda>c. c = a) xs = replicate (length (takeWhile (\<lambda>c. c = a) xs)) a"
  by (induction xs) simp_all

lemma dropWhile_replicate:
  "xs = replicate (length (takeWhile (\<lambda>c. c = a) xs)) a @ dropWhile (\<lambda>c. c = a) xs"
proof -
  have "xs = takeWhile (\<lambda>c. c = a) xs @ dropWhile (\<lambda>c. c = a) xs"
    by simp
  then show ?thesis
    by (simp only: takeWhile_replicate [symmetric])
qed

lemma strip_leading_decomp: "\<exists>k. p = replicate k slash @ strip_leading_slashes p"
  unfolding strip_leading_slashes_def by (rule exI) (rule dropWhile_replicate)

lemma strip_trailing_decomp: "\<exists>k. b = strip_trailing_slashes b @ replicate k slash"
proof -
  define k where "k = length (takeWhile (\<lambda>c. c = slash) (rev b))"
  have "rev b = replicate k slash @ dropWhile (\<lambda>c. c = slash) (rev b)"
    unfolding k_def by (rule dropWhile_replicate)
  then have "rev (rev b) = rev (replicate k slash @ dropWhile (\<lambda>c. c = slash) (rev b))"
    by (rule arg_cong)
  also have "\<dots> = strip_trailing_slashes b @ replicate k slash"
    by (simp add: strip_trailing_slashes_def)
  finally have "b = strip_trailing_slashes b @ replicate k slash"
    by simp
  then show ?thesis ..
qed

lemma dropWhile_no_head: "\<not> starts_with [a] (dropWhile (\<lambda>c. c = a) xs)"
  by (induction xs) (simp_all add: starts_with_def)

text \<open>
  Claim C10. The URL builder joins the base and the path with one slash: the base loses
  all the slashes that end it and the path all the slashes that start it, so that what is
  left of the base does not end with a slash and what is left of the path does not start
  with one, and any number of slashes added at the boundary on either side changes
  nothing. Base \<open>x/\<close> with path \<open>/p\<close>, base \<open>x\<close> with path \<open>p\<close> and base \<open>x//\<close> with path
  \<open>//p\<close> all give \<open>x/p\<close>.
\<close>

theorem withApi_one_separator:
  "withApi (b @ replicate m slash) (replicate n slash @ p) = withApi b p
   \<and> withApi b p = strip_trailing_slashes b @ [slash] @ strip_leading_slashes p
   \<and> (\<exists>k. b = strip_trailing_slashes b @ replicate k slash)
   \<and> (\<exists>k. p = replicate k slash @ strip_leading_slashes p)
   \<and> \<not> starts_with [slash] (rev (strip_trailing_slashes b))
   \<and> \<not> starts_with [slash] (strip_leading_slashes p)
   \<and> withApi (jsstr ''x/'') (jsstr ''/p'') = jsstr ''x/p''
   \<and> withApi (jsstr ''x'') (jsstr ''p'') = jsstr ''x/p''
   \<and> withApi (jsstr ''x//'') (jsstr ''//p'') = jsstr ''x/p''"
proof -
  have 1: "withApi (b @ replicate m slash) (replicate n slash @ p) = withApi b p"
    by (simp only: withApi_def strip_trailing_append strip_leading_append)
  have 2: "\<not> starts_with [slash] (rev (strip_trailing_slashes b))"
    by (simp add: strip_trailing_slashes_def dropWhile_no_head)
  have 3: "\<not> starts_with [slash] (strip_leading_slashes p)"
    by (simp add: strip_leading_slashes_def dropWhile_no_head)
  have 4: "withApi (jsstr ''x/'') (jsstr ''/p'') = jsstr ''x/p''"
    "withApi (jsstr ''x'') (jsstr ''p'') = jsstr ''x/p''"
    "withApi (jsstr ''x//'') (jsstr ''//p'') = jsstr ''x/p''"
    by (simp_all add: withApi_def strip_trailing_slashes_def strip_leading_slashes_def
        slash_def jsstr_def)
  have 5: "withApi b p = strip_trailing_slashes b @ [slash] @ strip_leading_slashes p"
    by (simp only: withApi_def)
  show ?thesis
    by (intro conjI) (rule 1 2 3 4 5 strip_trailing_decomp strip_leading_decomp)+
qed

text \<open>The default base with three more slashes and a path with two.\<close>

theorem withApi_one_separator_witness:
  "withApi (jsstr ''/backoffice/api///'') (jsstr ''//chat_users'') = jsstr ''/backoffice/api/chat_users''"
proof -
  have "withApi (jsstr ''/backoffice/api'' @ replicate (Suc (Suc (Suc 0))) slash)
          (replicate (Suc (Suc 0)) slash @ jsstr ''chat_users'')
      = withApi (jsstr ''/backoffice/api'') (jsstr ''chat_users'')"
    using withApi_one_separator
      [of "jsstr ''/backoffice/api''" "Suc (Suc (Suc 0))" "Suc (Suc 0)" "jsstr ''chat_users''"]
    by (rule conjunct1)
  then show ?thesis
    by (simp add: withApi_def strip_trailing_slashes_def strip_leading_slashes_def
        slash_def jsstr_def)
qed

section \<open>The navbar marker follows the scroll offset\<close>

lemma on_scroll_member: "is_scrolled \<in> set (on_scroll y cl) \<longleftrightarrow> y > 32"
  by (simp add: on_scroll_def classList_add_def classList_remove_def)

lemma on_scroll_idem: "on_scroll y (on_scroll y cl) = on_scroll y cl"
  by (simp add: on_scroll_def classList_add_def classList_remove_def)

lemma on_scroll_distinct: "distinct cl \<Longrightarrow> distinct (on_scroll y cl)"
  by (simp add: on_scroll_def classList_add_def classList_remove_def)

lemma on_scroll_others:
  "filter (\<lambda>t. t \<noteq> is_scrolled) (on_scroll y cl) = filter (\<lambda>t. t \<noteq> is_scrolled) cl"
  by (simp add: on_scroll_def classList_add_def classList_remove_def)

lemma distinct_count_le: "distinct xs \<Longrightarrow> count_list xs a \<le> 1"
  by (induction xs) (auto simp: count_list_0_iff)

text \<open>
  Claim C9. After the scroll listener has run, the marker class is on the navbar exactly
  when the scroll offset is greater than 32: not at 31, at 33, and no longer after a
  return to 31. Running the listener again at the same offset changes nothing, the class
  list holds the marker once or not at all, and every other class of the navbar stays as
  it was. (The token the source adds and removes is \<open>is-scrolled\<close>.)
\<close>

theorem on_scroll_marker:
  assumes "distinct cl"
  shows "(is_scrolled \<in> set (on_scroll y cl) \<longleftrightarrow> y > 32)
    \<and> is_scrolled \<notin> set (on_scroll 31 cl)
    \<and> is_scrolled \<in> set (on_scroll 33 cl)
    \<and> is_scrolled \<notin> set (on_scroll 31 (on_scroll 33 cl))
    \<and> on_scroll y (on_scroll y cl) = on_scroll y cl
    \<and> distinct (on_scroll y cl)
    \<and> count_list (on_scroll y cl) is_scrolled = (if y > 32 then 1 else 0)
    \<and> filter (\<lambda>t. t \<noteq> is_scrolled) (on_scroll y cl) = filter (\<lambda>t. t \<noteq> is_scrolled) cl"
proof -
  have d: "distinct (on_scroll y cl)"
    using assms by (rule on_scroll_distinct)
  have c: "count_list (on_scroll y cl) is_scrolled = (if y > 32 then 1 else 0)"
  proof (cases "y > 32")
    case True
    then have "is_scrolled \<in> set (on_scroll y cl)" by (simp add: on_scroll_member)
    then have "count_list (on_scroll y cl) is_scrolled \<noteq> 0" by (simp add: count_list_0_iff)
    moreover have "count_list (on_scroll y cl) is_scrolled \<le> 1"
      using d by (rule distinct_count_le)
    ultimately show ?thesis using True by simp
  next
    case False
    then have "is_scrolled \<notin> set (on_scroll y cl)" by (simp add: on_scroll_member)
    then show ?thesis using False by (simp add: count_list_0_iff)
  qed
  have e: "is_scrolled \<notin> set (on_scroll 31 cl)" "is_scrolled \<in> set (on_scroll 33 cl)"
    "is_scrolled \<notin> set (on_scroll 31 (on_scroll 33 cl))"
    by (simp_all add: on_scroll_member)
  show ?thesis
    by (intro conjI) (rule on_scroll_member e on_scroll_idem d c on_scroll_others)+
qed

text \<open>A navbar with one class, scrolled to 33, again to 33, and back to 31.\<close>

theorem on_scroll_marker_witness:
  "on_scroll 33 [jsstr ''navbar''] = [jsstr ''navbar'', is_scrolled]
   \<and> on_scroll 33 (on_scroll 33 [jsstr ''navbar'']) = [jsstr ''navbar'', is_scrolled]
   \<and> on_scroll 31 (on_scroll 33 [jsstr ''navbar'']) = [jsstr ''navbar'']
   \<and> count_list (on_scroll 33 [jsstr ''navbar'']) is_scrolled = 1"
proof -
  have d: "distinct [jsstr ''navbar'']" by simp
  have a: "on_scroll 33 [jsstr ''navbar''] = [jsstr ''navbar'', is_scrolled]"
    by (simp add: on_scroll_def classList_add_def is_scrolled_def jsstr_def)
  have b: "on_scroll 31 (on_scroll 33 [jsstr ''navbar'']) = [jsstr ''navbar'']"
    by (simp add: on_scroll_def classList_add_def classList_remove_def is_scrolled_def jsstr_def)
  from on_scroll_marker [OF d, of 33]
  have "on_scroll 33 (on_scroll 33 [jsstr ''navbar'']) = on_scroll 33 [jsstr ''navbar'']"
    and "count_list (on_scroll 33 [jsstr ''navbar'']) is_scrolled = (if (33::real) > 32 then 1 else 0)"
    by blast+
  then show ?thesis using a b by simp
qed

section \<open>The password score counts the satisfied criteria\<close>

lemma count_five:
  "(let score = 0;
        score = (if a then score + 1 else score);
        score = (if b then score + 1 else score);
        score = (if c then score + 1 else score);
        score = (if d then score + 1 else score);
        score = (if e then score + 1 else score)
    in score) = length (filter (\<lambda>b. b) [a, b, c, d, e])"
  by (cases a; cases b; cases c; cases d; cases e) (simp_all add: Let_def)

lemma passwordStrength_satisfied: "passwordStrength v = satisfied v"
  unfolding passwordStrength_def satisfied_def criteria_def list_ex_iff isSymbol_def
  by (rule count_five)

lemma passwordStrength_le: "passwordStrength v \<le> 5"
  by (simp add: passwordStrength_def Let_def)

lemma strength_examples:
  "passwordStrength [] = 0"
  "passwordStrength (jsstr ''aA1'') = 3"
  "passwordStrength (jsstr ''aA1!'') = 4"
  "passwordStrength (jsstr ''aA1!aaaa'') = 5"
  by (simp_all add: passwordStrength_def Let_def jsstr_def isUpper_def isLower_def isDigit_def
      isSymbol_def)

lemma strengthText_range:
  "range (\<lambda>v. strengthText d (passwordStrength v)) = {weak d, medium d, good d, strong d}"
proof
  show "range (\<lambda>v. strengthText d (passwordStrength v)) \<subseteq> {weak d, medium d, good d, strong d}"
    by (auto simp: strengthText_def)
  have "strengthText d (passwordStrength []) = weak d"
    "strengthText d (passwordStrength (jsstr ''aA1'')) = medium d"
    "strengthText d (passwordStrength (jsstr ''aA1!'')) = good d"
    "strengthText d (passwordStrength (jsstr ''aA1!aaaa'')) = strong d"
    by (simp_all only: strength_examples) (simp_all add: strengthText_def)
  then have "weak d \<in> range (\<lambda>v. strengthText d (passwordStrength v))"
    "medium d \<in> range (\<lambda>v. strengthText d (passwordStrength v))"
    "good d \<in> range (\<lambda>v. strengthText d (passwordStrength v))"
    "strong d \<in> range (\<lambda>v. strengthText d (passwordStrength v))"
    by (metis rangeI)+
  then show "{weak d, medium d, good d, strong d} \<subseteq> range (\<lambda>v. strengthText d (passwordStrength v))"
    by simp
qed

lemma labels_distinct:
  "distinct [weak labels_fr, medium labels_fr, good labels_fr, strong labels_fr]"
  "distinct [weak labels_en, medium labels_en, good labels_en, strong labels_en]"
  "distinct [weak labels_de, medium labels_de, good labels_de, strong labels_de]"
  by (simp_all add: labels_fr_def labels_en_def labels_de_def jsstr_def)

text \<open>
  Claim C7. The score of a password is the number of criteria it satisfies among: at least
  eight code units, an uppercase letter (\<open>A\<close> to \<open>Z\<close>), a lowercase letter (\<open>a\<close> to \<open>z\<close>), a
  digit, a code unit that is none of these. So it is at most five and grows with the
  number of satisfied criteria. The label is \<open>weak\<close> for a score up to two, \<open>medium\<close> for
  three, \<open>good\<close> for four and \<open>strong\<close> for five; over all passwords the labels shown are
  these four and no other, and in each of the three tables the four differ.
\<close>

theorem passwordStrength_label:
  "passwordStrength v = satisfied v
   \<and> passwordStrength v \<le> 5
   \<and> (satisfied v \<le> satisfied w \<longrightarrow> passwordStrength v \<le> passwordStrength w)
   \<and> (passwordStrength v \<le> 2 \<longrightarrow> strengthText d (passwordStrength v) = weak d)
   \<and> (passwordStrength v = 3 \<longrightarrow> strengthText d (passwordStrength v) = medium d)
   \<and> (passwordStrength v = 4 \<longrightarrow> strengthText d (passwordStrength v) = good d)
   \<and> (passwordStrength v = 5 \<longrightarrow> strengthText d (passwordStrength v) = strong d)
   \<and> range (\<lambda>v. strengthText d (passwordStrength v)) = {weak d, medium d, good d, strong d}
   \<and> (d \<in> {labels_fr, labels_en, labels_de} \<longrightarrow> card {weak d, medium d, good d, strong d} = 4)"
proof -
  have m: "satisfied v \<le> satisfied w \<longrightarrow> passwordStrength v \<le> passwordStrength w"
    by (simp add: passwordStrength_satisfied)
  have t: "passwordStrength v \<le> 2 \<longrightarrow> strengthText d (passwordStrength v) = weak d"
    "passwordStrength v = 3 \<longrightarrow> strengthText d (passwordStrength v) = medium d"
    "passwordStrength v = 4 \<longrightarrow> strengthText d (passwordStrength v) = good d"
    "passwordStrength v = 5 \<longrightarrow> strengthText d (passwordStrength v) = strong d"
    by (simp_all add: strengthText_def)
  have c: "d \<in> {labels_fr, labels_en, labels_de} \<longrightarrow> card {weak d, medium d, good d, strong d} = 4"
    using labels_distinct by auto
  show ?thesis
    by (intro conjI) (rule passwordStrength_satisfied passwordStrength_le m t strengthText_range c)+
qed

text \<open>A password of four code units that satisfies four criteria, compared with one
  that satisfies all five, and its English label.\<close>

theorem passwordStrength_label_witness:
  "satisfied (jsstr ''aA1!'') \<le> satisfied (jsstr ''aA1!aaaa'')
   \<and> passwordStrength (jsstr ''aA1!'') \<le> passwordStrength (jsstr ''aA1!aaaa'')
   \<and> passwordStrength (jsstr ''aA1!'') = 4
   \<and> strengthText labels_en (passwordStrength (jsstr ''aA1!'')) = jsstr ''Good''
   \<and> card {jsstr ''Weak'', jsstr ''Medium'', jsstr ''Good'', jsstr ''Strong''} = 4"
proof -
  note th = passwordStrength_label [of "jsstr ''aA1!''" "jsstr ''aA1!aaaa''" labels_en]
  have s: "satisfied (jsstr ''aA1!'') = 4" "satisfied (jsstr ''aA1!aaaa'') = 5"
    by (simp_all add: passwordStrength_satisfied [symmetric] strength_examples)
  have p: "passwordStrength (jsstr ''aA1!'') = 4"
    by (rule strength_examples)
  have 1: "passwordStrength (jsstr ''aA1!'') \<le> passwordStrength (jsstr ''aA1!aaaa'')"
    using th s by simp
  have 2: "strengthText labels_en (passwordStrength (jsstr ''aA1!'')) = good labels_en"
    using th p by blast
  have 3: "card {weak labels_en, medium labels_en, good labels_en, strong labels_en} = 4"
    using th by blast
  have l: "weak labels_en = jsstr ''Weak''" "medium labels_en = jsstr ''Medium''"
    "good labels_en = jsstr ''Good''" "strong labels_en = jsstr ''Strong''"
    by (simp_all add: labels_en_def)
  show ?thesis
    using s p 1 2 3 by (simp only: l) simp
qed

section \<open>The phone rules are exclusive and the first match decides\<close>

lemma starts_with_take:
  assumes "starts_with p v" and "n \<le> length p"
  shows "take n v = take n p"
proof -
  have "take n v = take n (take (length p) v)"
    using assms(2) by (simp add: min_def)
  also have "\<dots> = take n p"
    using assms(1) by (simp only: starts_with_def)
  finally show ?thesis .
qed

lemma rule_heads:
  "starts_with (jsstr ''+237'') v \<Longrightarrow> take 2 v = [0x2B, 0x32]"
  "starts_with (jsstr ''+33'') v \<Longrightarrow> take 2 v = [0x2B, 0x33]"
  "starts_with (jsstr ''+49'') v \<Longrightarrow> take 2 v = [0x2B, 0x34]"
  "starts_with (jsstr ''+1'') v \<Longrightarrow> take 2 v = [0x2B, 0x31]"
  by (drule starts_with_take [where n = 2]; simp add: jsstr_def)+

lemma zero_head: "zero_then_digits v \<Longrightarrow> \<exists>c. take 2 v = [0x30, c] \<and> isDigit c"
  by (cases v; cases "tl v") (auto simp: zero_then_digits_def)


lemma rules_exclusive:
  "\<not> (starts_with (jsstr ''+237'') v \<and> starts_with (jsstr ''+33'') v)"
  "\<not> (starts_with (jsstr ''+237'') v \<and> starts_with (jsstr ''+49'') v)"
  "\<not> (starts_with (jsstr ''+237'') v \<and> starts_with (jsstr ''+1'') v)"
  "\<not> (starts_with (jsstr ''+237'') v \<and> zero_then_digits v)"
  "\<not> (starts_with (jsstr ''+33'') v \<and> starts_with (jsstr ''+49'') v)"
  "\<not> (starts_with (jsstr ''+33'') v \<and> starts_with (jsstr ''+1'') v)"
  "\<not> (starts_with (jsstr ''+33'') v \<and> zero_then_digits v)"
  "\<not> (starts_with (jsstr ''+49'') v \<and> starts_with (jsstr ''+1'') v)"
  "\<not> (starts_with (jsstr ''+49'') v \<and> zero_then_digits v)"
  "\<not> (starts_with (jsstr ''+1'') v \<and> zero_then_digits v)"
  by (auto dest!: rule_heads zero_head)

lemma matching_rules_le: "matching_rules v \<le> 1"
  using rules_exclusive [of v] by (auto simp: matching_rules_def phone_rules_def)

lemma detectPhone_first_match: "detectPhone d raw = first_match d (remove_spaces raw)"
  by (simp add: detectPhone_def first_match_def phone_rules_def Let_def)

lemma remove_spaces_idem: "remove_spaces (remove_spaces raw) = remove_spaces raw"
  by (simp add: remove_spaces_def)

lemma remove_spaces_none: "list_all (\<lambda>c. \<not> isSpace c) (remove_spaces raw)"
  by (simp add: remove_spaces_def list_all_iff)

lemma detectPhone_by_rule:
  "starts_with (jsstr ''+237'') (remove_spaces raw) \<longrightarrow> detectPhone d raw = cm d"
  "starts_with (jsstr ''+33'') (remove_spaces raw) \<longrightarrow> detectPhone d raw = fr d"
  "starts_with (jsstr ''+49'') (remove_spaces raw) \<longrightarrow> detectPhone d raw = de d"
  "starts_with (jsstr ''+1'') (remove_spaces raw) \<longrightarrow> detectPhone d raw = us d"
  "zero_then_digits (remove_spaces raw) \<longrightarrow> detectPhone d raw = local d"
  "matching_rules (remove_spaces raw) = 0 \<longrightarrow> detectPhone d raw = unknown d"
  using rules_exclusive [of "remove_spaces raw"]
  by (auto simp: detectPhone_def Let_def matching_rules_def phone_rules_def)

lemma detectPhone_examples:
  "detectPhone d (jsstr ''+237612345678'') = cm d"
  "detectPhone d (jsstr ''+33612345678'') = fr d"
  "detectPhone d (jsstr ''0612345678'') = local d"
  "detectPhone d (jsstr ''999'') = unknown d"
  by (simp_all add: detectPhone_def Let_def remove_spaces_def starts_with_def zero_then_digits_def
      jsstr_def isSpace_def isDigit_def)

text \<open>
  Claim C8. The detector removes every white space code unit and answers with the label of
  the first rule, in the order \<open>+237\<close>, \<open>+33\<close>, \<open>+49\<close>, \<open>+1\<close>, a zero followed by at least
  eight digits, that the remaining string matches, and with the label \<open>unknown\<close> when it
  matches none. No string matches two rules, so each rule alone decides its label. The
  four examples of the specification give the labels of Cameroon, of France, the local
  label and the unknown label.
\<close>

theorem detectPhone_rules:
  "detectPhone d raw = first_match d (remove_spaces raw)
   \<and> list_all (\<lambda>c. \<not> isSpace c) (remove_spaces raw)
   \<and> detectPhone d (remove_spaces raw) = detectPhone d raw
   \<and> matching_rules v \<le> 1
   \<and> (starts_with (jsstr ''+237'') (remove_spaces raw) \<longrightarrow> detectPhone d raw = cm d)
   \<and> (starts_with (jsstr ''+33'') (remove_spaces raw) \<longrightarrow> detectPhone d raw = fr d)
   \<and> (starts_with (jsstr ''+49'') (remove_spaces raw) \<longrightarrow> detectPhone d raw = de d)
   \<and> (starts_with (jsstr ''+1'') (remove_spaces raw) \<longrightarrow> detectPhone d raw = us d)
   \<and> (zero_then_digits (remove_spaces raw) \<longrightarrow> detectPhone d raw = local d)
   \<and> (matching_rules (remove_spaces raw) = 0 \<longrightarrow> detectPhone d raw = unknown d)
   \<and> detectPhone d (jsstr ''+237612345678'') = cm d
   \<and> detectPhone d (jsstr ''+33612345678'') = fr d
   \<and> detectPhone d (jsstr ''0612345678'') = local d
   \<and> detectPhone d (jsstr ''999'') = unknown d"
proof -
  have i: "detectPhone d (remove_spaces raw) = detectPhone d raw"
    by (simp only: detectPhone_first_match remove_spaces_idem)
  show ?thesis
    by (intro conjI)
      (rule detectPhone_first_match remove_spaces_none i matching_rules_le detectPhone_by_rule
        detectPhone_examples)+
qed

text \<open>A German number and a local number written with spaces, and a number no rule
  matches.\<close>

theorem detectPhone_rules_witness:
  "remove_spaces (jsstr ''+49 30 1234'') = jsstr ''+49301234''
   \<and> starts_with (jsstr ''+49'') (jsstr ''+49301234'')
   \<and> detectPhone labels_en (jsstr ''+49 30 1234'') = jsstr ''Germany''
   \<and> zero_then_digits (remove_spaces (jsstr ''06 12 34 56 78''))
   \<and> detectPhone labels_en (jsstr ''06 12 34 56 78'') = jsstr ''Local''
   \<and> matching_rules (remove_spaces (jsstr ''999'')) = 0
   \<and> detectPhone labels_en (jsstr ''999'') = jsstr ''Unknown''"
proof -
  have r: "remove_spaces (jsstr ''+49 30 1234'') = jsstr ''+49301234''"
    by (simp add: remove_spaces_def jsstr_def isSpace_def)
  have s: "starts_with (jsstr ''+49'') (jsstr ''+49301234'')"
    by (simp add: starts_with_def jsstr_def)
  have z: "zero_then_digits (remove_spaces (jsstr ''06 12 34 56 78''))"
    by (simp add: zero_then_digits_def remove_spaces_def jsstr_def isSpace_def isDigit_def)
  have n: "matching_rules (remove_spaces (jsstr ''999'')) = 0"
    by (simp add: matching_rules_def phone_rules_def remove_spaces_def starts_with_def
        zero_then_digits_def jsstr_def isSpace_def)
  have s': "starts_with (jsstr ''+49'') (remove_spaces (jsstr ''+49 30 1234''))"
    by (simp only: r s)
  have 1: "detectPhone labels_en (jsstr ''+49 30 1234'') = de labels_en"
    using detectPhone_rules [of labels_en "jsstr ''+49 30 1234''"] s' by blast
  have 2: "detectPhone labels_en (jsstr ''06 12 34 56 78'') = local labels_en"
    using detectPhone_rules [of labels_en "jsstr ''06 12 34 56 78''"] z by blast
  have 3: "detectPhone labels_en (jsstr ''999'') = unknown labels_en"
    using detectPhone_rules [of labels_en "jsstr ''999''"] n by blast
  have l: "de labels_en = jsstr ''Germany''" "local labels_en = jsstr ''Local''"
    "unknown labels_en = jsstr ''Unknown''"
    by (simp_all add: labels_en_def)
  show ?thesis
    using r s z n 1 2 3 by (simp only: l simp_thms)
qed

section \<open>What the operations leave as it is\<close>

lemma setSocketState_frame [simp]:
  "trace (setSocketState st s) = trace s"
  "socket (setSocketState st s) = socket s"
  "selectedUserId (setSocketState st s) = selectedUserId s"
  "timers (setSocketState st s) = timers s"
  "reconnectTimer (setSocketState st s) = reconnectTimer s"
  "last_handle (setSocketState st s) = last_handle s"
  by (simp_all add: setSocketState_def Let_def)

lemma setSocketState_page [simp]:
  "users (setSocketState st s) = users s"
  "usersContainer (setSocketState st s) = usersContainer s"
  "messagesContainer (setSocketState st s) = messagesContainer s"
  "input_disabled (setSocketState st s) = input_disabled s"
  "sendButton_disabled (setSocketState st s) = sendButton_disabled s"
  by (simp_all add: setSocketState_def Let_def)


lemma browser_sets_frame [simp]:
  "timers (browser_sets r s) = timers s"
  "reconnectTimer (browser_sets r s) = reconnectTimer s"
  "last_handle (browser_sets r s) = last_handle s"
  "trace (browser_sets r s) = trace s"
  by (simp_all add: browser_sets_def split: option.splits)

lemma connectWebSocket_frame [simp]:
  "timers (connectWebSocket cfg c s) = timers s"
  "reconnectTimer (connectWebSocket cfg c s) = reconnectTimer s"
  "last_handle (connectWebSocket cfg c s) = last_handle s"
  by (simp_all add: connectWebSocket_def emit_def Let_def split: option.splits)

lemma renderUsers_cases:
  "renderUsers cfg s =
     (case map_join (user_item cfg (selectedUserId s)) (users s) of
        None \<Rightarrow> (Thrown, s)
      | Some markup \<Rightarrow> (Returned, s\<lparr>usersContainer := markup\<rparr>))"
  by (simp add: renderUsers_def)


lemma loadUsers_frame:
  "(snd (loadUsers cfg roster s))
     \<lparr>trace := trace s, users := users s, usersContainer := usersContainer s\<rparr> = s"
  by (simp add: loadUsers_def emit_def renderUsers_def Let_def
      split: fetched.splits option.splits)



lemma loadUsers_thrown:
  "fst (loadUsers cfg roster s) = Thrown \<Longrightarrow>
     usersContainer (snd (loadUsers cfg roster s)) = usersContainer s"
  by (auto simp: loadUsers_def emit_def renderUsers_def Let_def
      split: fetched.splits option.splits if_splits)

lemma loadMessages_unselected:
  "\<not> selected (selectedUserId s) \<Longrightarrow> loadMessages cfg reload s = (Returned, s)"
  by (simp add: loadMessages_def)


lemma loadMessages_frame:
  "(snd (loadMessages cfg reload s))
     \<lparr>trace := trace s, chatHeader := chatHeader s, messagesContainer := messagesContainer s,
      input_disabled := input_disabled s, sendButton_disabled := sendButton_disabled s\<rparr> = s"
  by (simp add: loadMessages_def emit_def renderMessages_def Let_def setSocketState_def
      split: fetched.splits option.splits)



lemma loadMessages_thrown:
  "fst (loadMessages cfg reload s) = Thrown \<Longrightarrow>
     messagesContainer (snd (loadMessages cfg reload s)) = messagesContainer s
     \<and> input_disabled (snd (loadMessages cfg reload s)) = input_disabled s
     \<and> sendButton_disabled (snd (loadMessages cfg reload s)) = sendButton_disabled s"
  by (auto simp: loadMessages_def emit_def renderMessages_def Let_def
      split: fetched.splits option.splits if_splits)




section \<open>A send with nothing to send does nothing\<close>

lemma dropWhile_all: "list_all P xs \<Longrightarrow> dropWhile P xs = []"
  by (simp add: list_all_iff)

lemma trim_empty_iff: "trim m = [] \<longleftrightarrow> list_all isSpace m"
proof
  assume "trim m = []"
  then have "dropWhile isSpace (rev (dropWhile isSpace m)) = []"
    by (simp add: trim_def)
  then have a: "\<forall>c \<in> set (dropWhile isSpace m). isSpace c"
    by (simp add: dropWhile_eq_Nil_conv)
  have "dropWhile isSpace m = []"
  proof (cases "dropWhile isSpace m")
    case Nil
    then show ?thesis .
  next
    case (Cons c cs)
    then have "\<not> isSpace c" by (metis hd_dropWhile list.sel(1) list.distinct(1))
    moreover have "isSpace c" using a Cons by simp
    ultimately show ?thesis by simp
  qed
  then show "list_all isSpace m"
    by (simp add: dropWhile_eq_Nil_conv list_all_iff)
next
  assume "list_all isSpace m"
  then show "trim m = []"
    by (simp add: trim_def dropWhile_all)
qed

lemma example_printing:
  "NumberToString example_config (Fin 7) = jsstr ''7''"
  "NumberToString example_config (Fin 3) = jsstr ''3''"
  "NumberToString example_config (Fin 42) = jsstr ''42''"
  by (simp_all add: example_config_def print_number_def show_int_def show_nat.simps jsstr_def)

lemma example_urls:
  "withApi (apiBase example_config) (jsstr ''chat_users'') = jsstr ''/backoffice/api/chat_users''"
  "withApi (apiBase example_config) (jsstr ''chat_send'') = jsstr ''/backoffice/api/chat_send''"
  "withApi (apiBase example_config) (jsstr ''chat_fetch?target_id='' @ jsstr ''7'')
     = jsstr ''/backoffice/api/chat_fetch?target_id=7''"
  by (simp_all add: example_config_def withApi_def strip_trailing_slashes_def
      strip_leading_slashes_def slash_def jsstr_def)


lemma example_selected_facts:
  "selected (selectedUserId example_selected)"
  "selectedUserId example_selected = Some (Fin 7)"
  "trace example_selected = []"
  "socket_open example_selected"
  by (simp_all add: example_selected_def example_start_def socket_open_def)

text \<open>
  Claim C4. When no counterpart is selected, or the message is empty or made of white space
  only, \<open>sendMessage\<close> returns the state it was given: nothing is added to the trace, so no
  request is made, and the selection, the user list, both rendered lists, the header and
  the controls are as before. The second condition is what the source tests: the trimmed
  message is empty.
\<close>

theorem sendMessage_nothing_to_send:
  assumes "\<not> selected (selectedUserId s) \<or> list_all isSpace message"
  shows "sendMessage cfg response reload message s = (Returned, s)
    \<and> trace (snd (sendMessage cfg response reload message s)) = trace s
    \<and> (trim message = [] \<longleftrightarrow> list_all isSpace message)"
proof -
  from assms have "\<not> selected (selectedUserId s) \<or> trim message = []"
    by (simp only: trim_empty_iff)
  then have "sendMessage cfg response reload message s = (Returned, s)"
    by (auto simp: sendMessage_def)
  then show ?thesis
    by (simp add: trim_empty_iff)
qed

text \<open>No counterpart selected and a real message; a counterpart selected and a message of
  a space, a tab and a no-break space.\<close>

theorem sendMessage_nothing_to_send_witness:
  "sendMessage example_config (Response True None) Rejected (jsstr ''bonjour'') example_start
     = (Returned, example_start)
   \<and> sendMessage example_config (Response True None) Rejected [0x20, 0x09, 0xA0] example_selected
     = (Returned, example_selected)
   \<and> selected (selectedUserId example_selected)"
proof -
  have a: "\<not> selected (selectedUserId example_start) \<or> list_all isSpace (jsstr ''bonjour'')"
    by (simp add: example_start_def)
  have b: "\<not> selected (selectedUserId example_selected) \<or> list_all isSpace [0x20, 0x09, 0xA0]"
    by (simp add: isSpace_def)
  have c: "selected (selectedUserId example_selected)"
    by (rule example_selected_facts)
  show ?thesis
    using sendMessage_nothing_to_send [OF a] sendMessage_nothing_to_send [OF b] c
    by blast
qed

section \<open>A response that is not OK changes nothing\<close>

lemma loadUsers_not_ok:
  "loadUsers cfg (Response False json) s =
     (Returned, s\<lparr>trace := trace s @ [Fetch (get_request (withApi (apiBase cfg) (jsstr ''chat_users'')))]\<rparr>)"
  by (simp add: loadUsers_def emit_def)

lemma loadMessages_not_ok:
  "loadMessages cfg (Response False json) s =
     (Returned,
      s\<lparr>trace := trace s @
        (if selected (selectedUserId s)
         then [Fetch (get_request (withApi (apiBase cfg)
                 (jsstr ''chat_fetch?target_id='' @ NumberToString cfg (the (selectedUserId s)))))]
         else [])\<rparr>)"
  by (simp add: loadMessages_def emit_def)

text \<open>
  Claim C5. When the roster request or the messages request is answered with a response
  that is not OK, \<open>loadUsers\<close> and \<open>loadMessages\<close> return normally and the client state is
  the one before the call: the user list, the selection, both rendered lists, the header,
  the state of the input and of the send button, and every other variable. Only the trace
  has grown, by the request that was made.
\<close>

theorem not_ok_response_changes_nothing:
  "fst (loadUsers cfg (Response False json) s) = Returned
   \<and> (snd (loadUsers cfg (Response False json) s))\<lparr>trace := trace s\<rparr> = s
   \<and> trace (snd (loadUsers cfg (Response False json) s))
       = trace s @ [Fetch (get_request (withApi (apiBase cfg) (jsstr ''chat_users'')))]
   \<and> fst (loadMessages cfg (Response False json') s) = Returned
   \<and> (snd (loadMessages cfg (Response False json') s))\<lparr>trace := trace s\<rparr> = s
   \<and> trace (snd (loadMessages cfg (Response False json') s))
       = trace s @
         (if selected (selectedUserId s)
          then [Fetch (get_request (withApi (apiBase cfg)
                  (jsstr ''chat_fetch?target_id='' @ NumberToString cfg (the (selectedUserId s)))))]
          else [])"
  by (simp add: loadUsers_not_ok loadMessages_not_ok)

text \<open>The two requests on the state with user 7 selected.\<close>

theorem not_ok_response_changes_nothing_witness:
  "loadUsers example_config (Response False None) example_selected
     = (Returned, example_selected
         \<lparr>trace := [Fetch (get_request (jsstr ''/backoffice/api/chat_users''))]\<rparr>)
   \<and> loadMessages example_config (Response False None) example_selected
     = (Returned, example_selected
         \<lparr>trace := [Fetch (get_request (jsstr ''/backoffice/api/chat_fetch?target_id=7''))]\<rparr>)"
proof -
  note th = not_ok_response_changes_nothing [of example_config None example_selected None]
  have 1: "snd (loadUsers example_config (Response False None) example_selected)
      = example_selected\<lparr>trace := [Fetch (get_request (jsstr ''/backoffice/api/chat_users''))]\<rparr>"
    using th by (simp add: loadUsers_not_ok example_urls example_selected_facts)
  have 2: "snd (loadMessages example_config (Response False None) example_selected)
      = example_selected
         \<lparr>trace := [Fetch (get_request (jsstr ''/backoffice/api/chat_fetch?target_id=7''))]\<rparr>"
    using th
    by (simp add: loadMessages_not_ok example_printing example_urls example_selected_facts)
  from th have "fst (loadUsers example_config (Response False None) example_selected) = Returned"
    and "fst (loadMessages example_config (Response False None) example_selected) = Returned"
    by blast+
  with 1 2 show ?thesis
    by (metis prod.collapse)
qed

section \<open>A send posts, reloads and notifies, in this order\<close>














section \<open>An inbound notification reloads the roster and, if it may, the messages\<close>













section \<open>At most one reconnection is pending\<close>

lemma run_append: "run cfg (xs @ ys) s = run cfg ys (run cfg xs s)"
  by (induction xs arbitrary: s) simp_all

lemma connectWebSocket_connects:
  "configured cfg \<Longrightarrow> connects (connectWebSocket cfg c s) = connects s + 1"
  by (auto simp: configured_def connectWebSocket_def connects_def emit_def Let_def)

lemma timer_invariant_cases:
  "timer_invariant s \<longleftrightarrow>
     timers s = []
     \<or> (\<exists>h. timers s = [(h, 2000)] \<and> reconnectTimer s = Some h \<and> h \<noteq> 0 \<and> h \<le> last_handle s)"
  by (auto simp: timer_invariant_def split: list.splits)

lemma on_close_timers:
  assumes "timer_invariant s"
  shows "timers (on_close s) = [(Suc (last_handle s), 2000)]"
    and "reconnectTimer (on_close s) = Some (Suc (last_handle s))"
    and "last_handle (on_close s) = Suc (last_handle s)"
    and "trace (on_close s) = trace s"
  using assms
  by (auto simp: timer_invariant_cases on_close_def setTimeout_def clearTimeout_def Let_def
      split: option.splits)

lemma on_timeout_timers:
  assumes "timer_invariant s"
  shows "timers (on_timeout cfg h c s) = (if h \<in> fst ` set (timers s) then [] else timers s)"
    and "reconnectTimer (on_timeout cfg h c s) = reconnectTimer s"
    and "last_handle (on_timeout cfg h c s) = last_handle s"
  using assms
  by (auto simp: timer_invariant_cases on_timeout_def)

lemma dispatch_invariant:
  assumes "timer_invariant s"
  shows "timer_invariant (dispatch cfg ev s)"
proof (cases ev)
  case SocketOpen
  then show ?thesis
    using assms by (simp add: on_open_def timer_invariant_cases)
next
  case SocketClose
  have i: "timer_invariant (browser_sets CLOSED s)"
    using assms by (simp add: timer_invariant_cases)
  show ?thesis
    using on_close_timers(1,2,3) [OF i] SocketClose by (simp add: timer_invariant_cases)
next
  case SocketError
  then show ?thesis
    using assms by (simp add: on_error_def timer_invariant_cases)
next
  case (TimerExpires h c)
  show ?thesis
    using on_timeout_timers [OF assms, of cfg h c] assms TimerExpires
    by (auto simp: timer_invariant_cases)
qed

lemma run_invariant: "timer_invariant s \<Longrightarrow> timer_invariant (run cfg evs s)"
  by (induction evs arbitrary: s) (simp_all add: dispatch_invariant)

lemma invariant_at_most_one: "timer_invariant s \<Longrightarrow> length (timers s) \<le> 1"
  by (auto simp: timer_invariant_cases)


lemma invariant_fresh: "timer_invariant s \<Longrightarrow> Suc (last_handle s) \<notin> fst ` set (timers s)"
  by (auto simp: timer_invariant_cases)

lemma close_then_expiry:
  assumes "timer_invariant s"
  shows "timers (run cfg [SocketClose, TimerExpires (Suc (last_handle s)) c] s) = []"
    and "configured cfg \<Longrightarrow>
      connects (run cfg [SocketClose, TimerExpires (Suc (last_handle s)) c] s) = connects s + 1"
    and "connects (run cfg [SocketClose] s) = connects s"
proof -
  have i: "timer_invariant (browser_sets CLOSED s)"
    using assms by (simp add: timer_invariant_cases)
  note oc = on_close_timers [OF i]
  show "timers (run cfg [SocketClose, TimerExpires (Suc (last_handle s)) c] s) = []"
    using oc by (simp add: on_timeout_def)
  show "connects (run cfg [SocketClose] s) = connects s"
    using oc by (simp add: connects_def)
  show "connects (run cfg [SocketClose, TimerExpires (Suc (last_handle s)) c] s) = connects s + 1"
    if "configured cfg"
    using oc connectWebSocket_connects [OF that] by (simp add: on_timeout_def connects_def)
qed

lemma expiry_without_timeout: "timers s = [] \<Longrightarrow> dispatch cfg (TimerExpires h c) s = s"
  by (simp add: on_timeout_def)

text \<open>
  Claim C1. Start where no reconnection is pending, as the script does, and let the socket
  events and the expiries of timeouts come in any order and number. At every moment at
  most one timeout is pending. After a close event exactly one is pending: it has a delay
  of 2000 ms and a handle that no timeout pending before the event had, so whatever was
  pending has been cancelled; the close event itself connects nothing. When this timeout
  expires, one socket is constructed (on a page that names a socket), no timeout is
  pending any more, and a further expiry does nothing: a close followed by no other event
  gives one reconnection attempt.
\<close>

theorem one_reconnect_timer_pending:
  assumes "timers s = []"
  shows "length (timers (run cfg evs s)) \<le> 1
    \<and> timers (run cfg (evs @ [SocketClose]) s) = [(Suc (last_handle (run cfg evs s)), 2000)]
    \<and> reconnectTimer (run cfg (evs @ [SocketClose]) s) = Some (Suc (last_handle (run cfg evs s)))
    \<and> Suc (last_handle (run cfg evs s)) \<notin> fst ` set (timers (run cfg evs s))
    \<and> connects (run cfg (evs @ [SocketClose]) s) = connects (run cfg evs s)
    \<and> (configured cfg \<longrightarrow>
         connects (run cfg (evs @ [SocketClose, TimerExpires (Suc (last_handle (run cfg evs s))) c]) s)
           = connects (run cfg evs s) + 1)
    \<and> timers (run cfg (evs @ [SocketClose, TimerExpires (Suc (last_handle (run cfg evs s))) c]) s) = []
    \<and> run cfg (evs @ [SocketClose, TimerExpires (Suc (last_handle (run cfg evs s))) c,
                        TimerExpires h' c']) s
        = run cfg (evs @ [SocketClose, TimerExpires (Suc (last_handle (run cfg evs s))) c]) s"
proof -
  define s' where "s' = run cfg evs s"
  have "timer_invariant s"
    using assms by (simp add: timer_invariant_cases)
  then have i: "timer_invariant s'"
    unfolding s'_def by (rule run_invariant)
  have i': "timer_invariant (browser_sets CLOSED s')"
    using i by (simp add: timer_invariant_cases)
  have 1: "length (timers s') \<le> 1"
    using i by (rule invariant_at_most_one)
  have 2: "timers (run cfg [SocketClose] s') = [(Suc (last_handle s'), 2000)]"
    "reconnectTimer (run cfg [SocketClose] s') = Some (Suc (last_handle s'))"
    using on_close_timers(1,2) [OF i'] by simp_all
  have 3: "Suc (last_handle s') \<notin> fst ` set (timers s')"
    using i by (rule invariant_fresh)
  note 4 = close_then_expiry(1) [OF i, of cfg c] close_then_expiry(2) [OF i, of cfg c]
    close_then_expiry(3) [OF i, of cfg]
  have 5: "run cfg [SocketClose, TimerExpires (Suc (last_handle s')) c, TimerExpires h' c'] s'
      = run cfg [SocketClose, TimerExpires (Suc (last_handle s')) c] s'"
    using expiry_without_timeout [OF 4(1), of cfg h' c'] by (simp del: dispatch.simps)
  show ?thesis
    unfolding run_append s'_def [symmetric]
    using 1 2 3 4 5 by blast
qed

text \<open>Three close events in a row on the example page, and then the expiry of the
  timeout that is left.\<close>

theorem one_reconnect_timer_pending_witness:
  "timers example_start = [] \<and> configured example_config
   \<and> timers (run example_config [SocketClose, SocketClose, SocketClose] example_start) = [(3, 2000)]
   \<and> connects (run example_config
        [SocketClose, SocketClose, SocketClose, TimerExpires 3 True] example_start) = 1
   \<and> timers (run example_config
        [SocketClose, SocketClose, SocketClose, TimerExpires 3 True] example_start) = []"
proof -
  have a: "timers example_start = []"
    by (simp add: example_start_def)
  have c: "configured example_config"
    by (simp add: configured_def example_config_def jsstr_def)
  have l: "last_handle (run example_config [SocketClose, SocketClose] example_start) = 2"
    by (simp add: on_close_def setSocketState_def setTimeout_def clearTimeout_def
        browser_sets_def example_start_def Let_def)
  have n: "connects (run example_config [SocketClose, SocketClose] example_start) = 0"
    by (simp add: on_close_def setSocketState_def setTimeout_def clearTimeout_def
        browser_sets_def example_start_def connects_def Let_def)
  have l': "Suc (last_handle (run example_config [SocketClose, SocketClose] example_start)) = 3"
    by (simp only: l)
  note th = one_reconnect_timer_pending
    [OF a, of example_config "[SocketClose, SocketClose]" True, unfolded l' n append.simps]
  show ?thesis
    using th a c by simp
qed

section \<open>The text fields are escaped, the id is not\<close>

lemma angle_brackets_append: "angle_brackets (a @ b) = angle_brackets a + angle_brackets b"
  by (simp add: angle_brackets_def)

lemma angle_brackets_concat: "angle_brackets (concat xs) = sum_list (map angle_brackets xs)"
  by (induction xs) (simp add: angle_brackets_def, simp add: angle_brackets_append)

lemma escape_unit_no_bracket: "angle_brackets (escape_unit c) = 0"
  by (simp add: escape_unit_def angle_brackets_def jsstr_def)

lemma escapeHtml_no_bracket: "escapeHtml cfg v = Some text \<Longrightarrow> angle_brackets text = 0"
  by (auto simp: escapeHtml_def angle_brackets_concat escape_unit_no_bracket comp_def)

lemma layout_no_bracket: "angle_brackets newline = 0" "angle_brackets (indent n) = 0"
  by (simp_all add: angle_brackets_def newline_def indent_def)

lemma message_template_brackets:
  assumes "angle_brackets content = 0" "angle_brackets sender_name = 0"
    "angle_brackets created_at = 0"
  shows \<open>angle_brackets (newline @ indent 16 @ jsstr ''<div class="chat-bubble ''
         @ (if self then jsstr ''self'' else jsstr ''other'') @ jsstr ''">''
         @ newline @ indent 20 @ jsstr ''<div>'' @ content @ jsstr ''</div>''
         @ newline @ indent 20 @ jsstr ''<span class="chat-meta">'' @ sender_name
           @ jsstr '' | '' @ created_at @ jsstr ''</span>''
         @ newline @ indent 16 @ jsstr ''</div>''
         @ newline @ indent 12) = 12\<close>
  by (simp add: angle_brackets_append layout_no_bracket assms)
    (simp add: angle_brackets_def jsstr_def)

lemma user_template_brackets:
  assumes "angle_brackets full_name = 0" "angle_brackets email = 0" "angle_brackets role = 0"
  shows \<open>angle_brackets (newline @ indent 16 @ jsstr ''<div class="chat-user-item ''
           @ (if active then jsstr ''active'' else [])
           @ jsstr ''" data-user-id="'' @ id_string @ jsstr ''">''
         @ newline @ indent 20 @ jsstr ''<strong>'' @ full_name @ jsstr ''</strong>''
         @ newline @ indent 20 @ jsstr ''<div class="small text-muted">'' @ email
           @ jsstr '' | '' @ role @ jsstr ''</div>''
         @ newline @ indent 16 @ jsstr ''</div>''
         @ newline @ indent 12) = 12 + angle_brackets id_string\<close>
  by (simp add: angle_brackets_append layout_no_bracket assms)
    (simp add: angle_brackets_def jsstr_def)

lemma message_item_brackets:
  assumes "message_item cfg message = Some markup"
  shows "angle_brackets markup = 12"
  using assms unfolding message_item_def Let_def bind_eq_Some_conv
  by (elim exE conjE) (auto dest!: escapeHtml_no_bracket intro!: message_template_brackets)

lemma user_item_brackets:
  assumes "user_item cfg sel user = Some markup"
  shows "\<exists>user_id id_string. property user (jsstr ''id'') = Some user_id
    \<and> ToString cfg user_id = Some id_string
    \<and> angle_brackets markup = 12 + angle_brackets id_string"
  using assms unfolding user_item_def Let_def bind_eq_Some_conv
  by (elim exE conjE) (auto dest!: escapeHtml_no_bracket intro!: user_template_brackets)

lemma those_map_Some:
  "those (map f xs) = Some ys \<Longrightarrow> length ys = length xs \<and> (\<forall>y \<in> set ys. \<exists>x. f x = Some y)"
  by (induction xs arbitrary: ys) (auto split: option.splits)

lemma sum_list_constant: "\<forall>y \<in> set ys. f y = (c::nat) \<Longrightarrow> sum_list (map f ys) = c * length ys"
  by (induction ys) simp_all

lemma renderMessages_brackets:
  assumes "renderMessages cfg (JArr messages) s = (Returned, s')"
  shows "angle_brackets (messagesContainer s') = 12 * length messages"
proof -
  from assms obtain items where
    t: "those (map (message_item cfg) messages) = Some items"
    and c: "messagesContainer s' = concat items"
    by (auto simp: renderMessages_def map_join_def split: option.splits)
  from those_map_Some [OF t] have l: "length items = length messages"
    and e: "\<forall>y \<in> set items. angle_brackets y = 12"
    by (auto dest: message_item_brackets)
  show ?thesis
    by (simp only: c angle_brackets_concat sum_list_constant [OF e] l)
qed

text \<open>
  Claim C6 does not hold of the code. \<open>renderUsers\<close> writes \<open>user.id\<close> into the
  \<open>data-user-id\<close> attribute as it is, where the three other fields of the same template go
  through \<open>escapeHtml\<close>. For a roster of one user whose id is the string
  \<open>"><img src=x onerror=alert(1)>\<close> the markup assigned to \<open>innerHTML\<close> closes the
  attribute and the tag and holds an \<open>img\<close> element of the user's making: fifteen angle
  brackets where the template has twelve, while the name of the same user, which holds
  markup too, is written with entities. The escaped form of the id differs from the string
  that is written.
\<close>

theorem user_id_is_not_escaped:
  \<open>renderUsers example_config (example_start\<lparr>users := JArr [injecting_user]\<rparr>)
     = (Returned, example_start\<lparr>users := JArr [injecting_user],
         usersContainer :=
           newline @ indent 16
             @ jsstr ''<div class="chat-user-item " data-user-id=""><img src=x onerror=alert(1)>">''
           @ newline @ indent 20 @ jsstr ''<strong>Eve &lt;b&gt;</strong>''
           @ newline @ indent 20 @ jsstr ''<div class="small text-muted">eve@example.org | admin</div>''
           @ newline @ indent 16 @ jsstr ''</div>''
           @ newline @ indent 12\<rparr>)
   \<and> angle_brackets (usersContainer
         (snd (renderUsers example_config (example_start\<lparr>users := JArr [injecting_user]\<rparr>)))) = 15
   \<and> ToString example_config (JStr (jsstr ''"><img src=x onerror=alert(1)>''))
       = Some (jsstr ''"><img src=x onerror=alert(1)>'')
   \<and> escapeHtml example_config (JStr (jsstr ''"><img src=x onerror=alert(1)>''))
       = Some (jsstr ''"&gt;&lt;img src=x onerror=alert(1)&gt;'')\<close>
proof -
  have 0: \<open>user_item example_config None injecting_user = Some (
     newline @ indent 16
       @ jsstr ''<div class="chat-user-item " data-user-id=""><img src=x onerror=alert(1)>">''
     @ newline @ indent 20 @ jsstr ''<strong>Eve &lt;b&gt;</strong>''
     @ newline @ indent 20 @ jsstr ''<div class="small text-muted">eve@example.org | admin</div>''
     @ newline @ indent 16 @ jsstr ''</div>''
     @ newline @ indent 12)\<close>
    by (simp add: user_item_def injecting_user_def escapeHtml_def textContent_of_def
        escape_unit_def jsstr_def newline_def)
  have 1: \<open>renderUsers example_config (example_start\<lparr>users := JArr [injecting_user]\<rparr>)
     = (Returned, example_start\<lparr>users := JArr [injecting_user],
         usersContainer :=
           newline @ indent 16
             @ jsstr ''<div class="chat-user-item " data-user-id=""><img src=x onerror=alert(1)>">''
           @ newline @ indent 20 @ jsstr ''<strong>Eve &lt;b&gt;</strong>''
           @ newline @ indent 20 @ jsstr ''<div class="small text-muted">eve@example.org | admin</div>''
           @ newline @ indent 16 @ jsstr ''</div>''
           @ newline @ indent 12\<rparr>)\<close>
    by (simp add: renderUsers_def map_join_def example_start_def 0)
  have 2: "angle_brackets (usersContainer
         (snd (renderUsers example_config (example_start\<lparr>users := JArr [injecting_user]\<rparr>)))) = 15"
    by (simp only: 1 snd_conv)
      (simp add: angle_brackets_append layout_no_bracket, simp add: angle_brackets_def jsstr_def)
  have 3: \<open>ToString example_config (JStr (jsstr ''"><img src=x onerror=alert(1)>''))
       = Some (jsstr ''"><img src=x onerror=alert(1)>'')\<close>
    by simp
  have 4: \<open>escapeHtml example_config (JStr (jsstr ''"><img src=x onerror=alert(1)>''))
       = Some (jsstr ''"&gt;&lt;img src=x onerror=alert(1)&gt;'')\<close>
    by (simp add: escapeHtml_def textContent_of_def escape_unit_def jsstr_def)
  show ?thesis
    using 1 2 3 4 by (intro conjI)
qed

end
